theory Spec2Isabelle
  imports Complex_Main
begin

section \<open>Adapter inference script (litgpt/generate/adapter.py)\<close>

text \<open>
  The script resolves its configuration, loads a model with adapter weights, renders one
  prompt per dataset row, generates, truncates the decoded text at a model specific split
  marker and writes the prompt/result pairs to a CSV file. Everything that belongs to the
  modelling library (model, tokenizer, generation, configuration readers) is an injected
  capability here; the script's own control flow is modelled as it is written.
\<close>

subsection \<open>Python string operations used by the script\<close>

text \<open>
  Python strings are sequences of code points; the operations below are polymorphic in the
  element type, and are used at \<^typ>\<open>string\<close>.
\<close>

text \<open>\<^verbatim>\<open>s.startswith(sep)\<close>\<close>

definition startswith :: "'a list \<Rightarrow> 'a list \<Rightarrow> bool" where
  "startswith s sep = (take (length sep) s = sep)"

text \<open>\<^verbatim>\<open>sep in s\<close>: some position of \<open>s\<close> starts an occurrence of \<open>sep\<close>.\<close>

fun contains :: "'a list \<Rightarrow> 'a list \<Rightarrow> bool" where
  "contains sep [] = (sep = [])"
| "contains sep (c # cs) = (startswith (c # cs) sep \<or> contains sep cs)"

text \<open>
  \<^verbatim>\<open>s.split(sep)\<close> for a non-empty separator: the string is scanned from the left, every
  occurrence found closes the current segment and the scan resumes behind it (occurrences
  do not overlap). \<open>cur\<close> is the segment collected so far.
\<close>

function split_from :: "'a list \<Rightarrow> 'a list \<Rightarrow> 'a list \<Rightarrow> 'a list list" where
  "split_from sep cur [] = [cur]"
| "split_from sep cur (c # cs) =
     (if sep \<noteq> [] \<and> startswith (c # cs) sep
      then cur # split_from sep [] (drop (length sep) (c # cs))
      else split_from sep (cur @ [c]) cs)"
  by pat_completeness auto
termination
  by (relation "measure (\<lambda>(sep, cur, s). length s)") auto

text \<open>
  What ends a run early. The first three are raised by the script itself or by the Python
  builtins it uses (\<^verbatim>\<open>exit\<close>, a \<^verbatim>\<open>dict\<close> lookup, \<^verbatim>\<open>raise ValueError\<close>,
  \<^verbatim>\<open>str.split\<close>); \<open>ExternalError\<close> is an exception that propagates out of a call
  into the modelling library or pandas, with its description.
\<close>

datatype error =
    SystemExit int
  | KeyError string
  | ValueError string
  | ExternalError string

text \<open>\<^verbatim>\<open>str.split\<close> raises \<^verbatim>\<open>ValueError("empty separator")\<close> on an empty separator.\<close>

definition py_split :: "'a list \<Rightarrow> 'a list \<Rightarrow> error + 'a list list" where
  "py_split s sep =
     (if sep = [] then Inl (ValueError ''empty separator'') else Inr (split_from sep [] s))"

text \<open>\<^verbatim>\<open>sep.join(segs)\<close>\<close>

fun py_join :: "'a list \<Rightarrow> 'a list list \<Rightarrow> 'a list" where
  "py_join sep [] = []"
| "py_join sep [x] = x"
| "py_join sep (x # y # ys) = x @ sep @ py_join sep (y # ys)"

text \<open>
  Line 137: \<^verbatim>\<open>output = ''.join(map(str, output.split(split_label)[1:]))\<close>.
  The slice \<^verbatim>\<open>[1:]\<close> of a list drops its first element (and is empty for a list of
  one element); \<^verbatim>\<open>str\<close> is the identity on the segments, which are strings.
\<close>

definition truncate_output :: "'a list \<Rightarrow> 'a list \<Rightarrow> error + 'a list" where
  "truncate_output split_label output =
     (case py_split output split_label of
        Inl e \<Rightarrow> Inl e
      | Inr segs \<Rightarrow> Inr (py_join [] (drop 1 segs)))"

subsection \<open>Arguments, external capabilities, observable events\<close>

text \<open>
  A \<^verbatim>\<open>pathlib\<close> expression: \<^verbatim>\<open>Path(s)\<close> and \<^verbatim>\<open>p / name\<close>. The script only builds paths
  and hands them to the library, so they are kept as written.
\<close>

datatype path = Path string | PathJoin path string

text \<open>The parameters of \<^verbatim>\<open>main\<close> (lines 20 to 35), under their own names.\<close>

record args =
  adapter_dir :: path
  prompt :: string
  input :: string
  model_name :: string
  quantize :: "string option"
  max_new_tokens :: int
  top_k :: "int option"
  temperature :: real
  precision :: "string option"
  finetune_data_path :: string
  evaluation_dataset_name :: string
  device :: int
  add_system_prompt :: bool
  output_file :: string

datatype dtype = Float16 | BFloat16 | Float32

text \<open>\<^verbatim>\<open>BitsandbytesPrecision(quantize[4:], dtype)\<close>, line 79.\<close>

datatype plugin = BitsandbytesPrecision string dtype

text \<open>
  What lines 82 to 118 hand to the modelling library: the Fabric settings, the checkpoint
  and adapter files and the sequence length limit.
\<close>

record load_request =
  lr_device :: int
  lr_precision :: "string option"
  lr_plugins :: "plugin option"
  lr_checkpoint_dir :: path
  lr_checkpoint_path :: path
  lr_adapter_path :: path
  lr_max_seq_length :: int

text \<open>\<^verbatim>\<open>pd.DataFrame({...})\<close>: the column names in the order of the dictionary, and the rows.\<close>

record dataframe =
  df_columns :: "string list"
  df_rows :: "string list list"

text \<open>
  The calls that leave the script, in the order in which they are made. Console output is
  not part of the model.
\<close>

datatype event =
    ReadConfig string
  | LoadModel load_request
  | ReadCsv string string
  | Generate "int list" int real
  | WriteCsv string dataframe

fun is_load :: "event \<Rightarrow> bool" where
  "is_load (LoadModel _) = True"
| "is_load _ = False"

fun is_generate :: "event \<Rightarrow> bool" where
  "is_generate (Generate _ _ _) = True"
| "is_generate _ = False"

fun is_write :: "event \<Rightarrow> bool" where
  "is_write (WriteCsv _ _) = True"
| "is_write _ = False"

text \<open>
  The functions the script imports and calls; none of them is defined in the script.
  A call either returns a value (\<open>Inr\<close>) or raises, with a description (\<open>Inl\<close>).
  \<open>'cfg\<close> is a parsed YAML file; \<open>'w\<close> is the loaded model with its tokenizer, cache and
  random generator, which generation may change.
  \<^item> \<open>resolve_output_file\<close>: \<^verbatim>\<open>litgpt.utils.resolve_output_file\<close>; \<open>None\<close> is Python's
    \<^verbatim>\<open>None\<close>.
  \<^item> \<open>load_model\<close>: lines 82 to 118 (Fabric, checkpoint check, model configuration,
    tokenizer, model construction, weights, seeding).
  \<^item> \<open>read_csv_column\<close>: \<^verbatim>\<open>pd.read_csv(dataset_path)[column_name]\<close>, the cells as text.
  \<^item> \<open>apply_prompt_template\<close>: \<^verbatim>\<open>litgpt.data.json_data.apply_prompt_template\<close> with the
    arguments \<^verbatim>\<open>prompt, model_name, add_sys_prefix, finetune_dataname\<close>.
  \<^item> \<open>encode\<close>, \<open>generate\<close>, \<open>decode\<close>: the tokenizer and \<^verbatim>\<open>litgpt.generate.base.generate\<close>.
  \<^item> \<open>to_csv\<close>: \<^verbatim>\<open>df.to_csv(path, index=False)\<close>; \<open>None\<close> when the file was written.
\<close>

record ('cfg, 'w) env =
  resolve_output_file :: "string \<Rightarrow> string option"
  load_config :: "string \<Rightarrow> string + 'cfg"
  get_model_path :: "string \<Rightarrow> 'cfg \<Rightarrow> string + string"
  get_default_supported_precision :: string
  load_model :: "load_request \<Rightarrow> string + 'w"
  get_dataset_info :: "string \<Rightarrow> 'cfg \<Rightarrow> string + (string \<times> string)"
  read_csv_column :: "string \<Rightarrow> string \<Rightarrow> string + string list"
  apply_prompt_template :: "string \<Rightarrow> string \<Rightarrow> bool \<Rightarrow> string \<Rightarrow> string + string"
  encode :: "'w \<Rightarrow> string \<Rightarrow> string + int list"
  generate :: "'w \<Rightarrow> int list \<Rightarrow> int \<Rightarrow> real \<Rightarrow> (string + int list) \<times> 'w"
  decode :: "'w \<Rightarrow> int list \<Rightarrow> string + string"
  to_csv :: "string \<Rightarrow> dataframe \<Rightarrow> string option"

subsection \<open>Runs: the events so far and how the run ended\<close>

type_synonym 'a run = "event list \<times> (error + 'a)"

definition ret :: "'a \<Rightarrow> 'a run" where
  "ret x = ([], Inr x)"

definition raise :: "error \<Rightarrow> 'a run" where
  "raise e = ([], Inl e)"

text \<open>The result of a library call made without an event of its own.\<close>

definition lift :: "string + 'a \<Rightarrow> 'a run" where
  "lift r = (case r of Inl m \<Rightarrow> ([], Inl (ExternalError m)) | Inr x \<Rightarrow> ([], Inr x))"

text \<open>A library call that is recorded: the event happens whether or not the call raises.\<close>

definition call :: "event \<Rightarrow> string + 'a \<Rightarrow> 'a run" where
  "call ev r = (case r of Inl m \<Rightarrow> ([ev], Inl (ExternalError m)) | Inr x \<Rightarrow> ([ev], Inr x))"

text \<open>Sequencing: an error ends the run, keeping the events before it.\<close>

definition and_then :: "'a run \<Rightarrow> ('a \<Rightarrow> 'b run) \<Rightarrow> 'b run" where
  "and_then m f =
     (case m of
        (t, Inl e) \<Rightarrow> (t, Inl e)
      | (t, Inr x) \<Rightarrow> (case f x of (t', r) \<Rightarrow> (t @ t', r)))"

text \<open>Whether a run ended by \<^verbatim>\<open>exit\<close>.\<close>

fun is_exit :: "error + 'a \<Rightarrow> bool" where
  "is_exit (Inl (SystemExit _)) = True"
| "is_exit _ = False"

subsection \<open>The script\<close>

text \<open>Python's truth test on the value returned by \<^verbatim>\<open>resolve_output_file\<close> (line 37).\<close>

definition falsy :: "string option \<Rightarrow> bool" where
  "falsy r = (case r of None \<Rightarrow> True | Some p \<Rightarrow> p = [])"

text \<open>Lines 47 to 51: the split marker of every model.\<close>

definition model_split_label :: "string \<rightharpoonup> string" where
  "model_split_label =
     map_of [(''Llama-2-7b-chat-hf'', ''[/INST]''),
             (''Llama-2-13b-chat-hf'', ''[/INST]''),
             (''falcon-7b'', ''Falcon:''),
             (''mistral-7b-it'', ''[/INST]''),
             (''beaver'', ''ASSISTANT:'')]"

text \<open>
  Lines 41 to 52: the base model path, the checkpoint and adapter paths, and the lookup
  \<^verbatim>\<open>model_split_label[model_name]\<close>, which raises \<^verbatim>\<open>KeyError\<close> on an unknown name.
\<close>

definition configure :: "('cfg, 'w) env \<Rightarrow> args \<Rightarrow> (path \<times> path \<times> string) run" where
  "configure env a =
     and_then (call (ReadConfig ''configs/base_model_path.yaml'')
                 (load_config env ''configs/base_model_path.yaml''))
       (\<lambda>base_model_config.
     and_then (lift (get_model_path env (model_name a) base_model_config))
       (\<lambda>original_model_name_or_path.
     let checkpoint_dir = Path original_model_name_or_path;
         adapter_path = PathJoin (adapter_dir a) ''lit_model.pth''
     in case model_split_label (model_name a) of
          None \<Rightarrow> raise (KeyError (model_name a))
        | Some split_label \<Rightarrow> ret (checkpoint_dir, adapter_path, split_label)))"

text \<open>
  Line 72: \<^verbatim>\<open>precision or get_default_supported_precision(training=False)\<close>; \<^verbatim>\<open>None\<close> and
  the empty string are both false.
\<close>

definition resolved_precision :: "('cfg, 'w) env \<Rightarrow> args \<Rightarrow> string" where
  "resolved_precision env a =
     (case precision a of
        None \<Rightarrow> get_default_supported_precision env
      | Some p \<Rightarrow> if p = [] then get_default_supported_precision env else p)"

text \<open>Line 78: the lookup table from precision to tensor type.\<close>

definition dtype_table :: "string \<rightharpoonup> dtype" where
  "dtype_table =
     map_of [(''16-true'', Float16), (''bf16-true'', BFloat16), (''32-true'', Float32)]"

text \<open>
  Lines 72 to 80: the precision and the quantization plugin given to Fabric.
  \<^verbatim>\<open>quantize[4:]\<close> drops the first four characters.
\<close>

definition select_precision ::
    "('cfg, 'w) env \<Rightarrow> args \<Rightarrow> (string option \<times> plugin option) run" where
  "select_precision env a =
     (let precision = resolved_precision env a
      in case quantize a of
           None \<Rightarrow> ret (Some precision, None)
         | Some q \<Rightarrow>
             if startswith q ''bnb.'' then
               if contains ''mixed'' precision then
                 raise (ValueError ''Quantization and mixed precision is not supported.'')
               else (case dtype_table precision of
                       None \<Rightarrow> raise (KeyError precision)
                     | Some dtype \<Rightarrow> ret (None, Some (BitsandbytesPrecision (drop 4 q) dtype)))
             else ret (Some precision, None))"

text \<open>Lines 82 to 118: Fabric, tokenizer, model and weights, as one request to the library.\<close>

definition load :: "('cfg, 'w) env \<Rightarrow> args \<Rightarrow> path \<Rightarrow> path \<Rightarrow> string option \<times> plugin option
                       \<Rightarrow> ('w \<times> int) run" where
  "load env a checkpoint_dir adapter_path pp =
     (let checkpoint_path = PathJoin checkpoint_dir ''lit_model.pth'';
          max_returned_tokens = 512 + max_new_tokens a;
          req = \<lparr> lr_device = device a, lr_precision = fst pp, lr_plugins = snd pp,
                  lr_checkpoint_dir = checkpoint_dir, lr_checkpoint_path = checkpoint_path,
                  lr_adapter_path = adapter_path, lr_max_seq_length = max_returned_tokens \<rparr>
      in and_then (call (LoadModel req) (load_model env req))
           (\<lambda>w. ret (w, max_returned_tokens)))"

text \<open>Lines 119 to 121: the evaluation dataset's text column.\<close>

definition read_dataset :: "('cfg, 'w) env \<Rightarrow> args \<Rightarrow> string list run" where
  "read_dataset env a =
     and_then (call (ReadConfig ''configs/infer_modelpath_datasetpath_setting.yaml'')
                 (load_config env ''configs/infer_modelpath_datasetpath_setting.yaml''))
       (\<lambda>config.
     and_then (lift (get_dataset_info env (evaluation_dataset_name a) config))
       (\<lambda>(dataset_path, column_name).
     call (ReadCsv dataset_path column_name) (read_csv_column env dataset_path column_name)))"

text \<open>Lines 125 to 128: the template call for one dataset row.\<close>

definition render_prompt :: "('cfg, 'w) env \<Rightarrow> args \<Rightarrow> string \<Rightarrow> string + string" where
  "render_prompt env a prompt' =
     (if finetune_data_path a = ''AOAidentity_shifting''
      then apply_prompt_template env prompt' (model_name a) True (finetune_data_path a)
      else apply_prompt_template env prompt' (model_name a) (add_system_prompt a)
             (finetune_data_path a))"

text \<open>
  The state of the generation loop: the model, \<^verbatim>\<open>predicted_sequences\<close> and
  \<^verbatim>\<open>sources_sequences\<close>.
\<close>

type_synonym 'w loop_state = "'w \<times> string list \<times> string list"

text \<open>Lines 134 to 139: one pass of the inner loop.\<close>

definition generate_once ::
    "('cfg, 'w) env \<Rightarrow> args \<Rightarrow> string \<Rightarrow> int \<Rightarrow> string \<Rightarrow> int list \<Rightarrow> 'w loop_state
       \<Rightarrow> 'w loop_state run" where
  "generate_once env a split_label max_returned_tokens prompt' encoded st =
     (case st of (w, predicted_sequences, sources_sequences) \<Rightarrow>
      case generate env w encoded max_returned_tokens (temperature a) of (r, w') \<Rightarrow>
        and_then (call (Generate encoded max_returned_tokens (temperature a)) r)
          (\<lambda>y.
        and_then (lift (decode env w' y))
          (\<lambda>output.
        and_then ([], truncate_output split_label output)
          (\<lambda>output'.
        ret (w', predicted_sequences @ [output'], sources_sequences @ [prompt'])))))"

text \<open>Line 132.\<close>

definition repeat :: nat where
  "repeat = 1"

text \<open>\<^verbatim>\<open>for i in range(n)\<close> around a body that does not read \<open>i\<close>.\<close>

fun for_range :: "nat \<Rightarrow> ('s \<Rightarrow> 's run) \<Rightarrow> 's \<Rightarrow> 's run" where
  "for_range 0 body st = ret st"
| "for_range (Suc n) body st = and_then (body st) (for_range n body)"

text \<open>Lines 125 to 139: the body of the loop over the dataset rows.\<close>

definition loop_body ::
    "('cfg, 'w) env \<Rightarrow> args \<Rightarrow> string \<Rightarrow> int \<Rightarrow> string \<Rightarrow> 'w loop_state \<Rightarrow> 'w loop_state run" where
  "loop_body env a split_label max_returned_tokens prompt' st =
     and_then (lift (render_prompt env a prompt'))
       (\<lambda>TEMPLATE.
     and_then (lift (encode env (fst st) TEMPLATE))
       (\<lambda>encoded.
     for_range repeat (generate_once env a split_label max_returned_tokens prompt' encoded) st))"

text \<open>
  Line 124: \<^verbatim>\<open>for prompt in datasetpd[column_name]\<close>. The loop variable, which hides the
  parameter \<^verbatim>\<open>prompt\<close> of \<^verbatim>\<open>main\<close>, is written \<open>prompt'\<close>.
\<close>

fun generation_loop ::
    "('cfg, 'w) env \<Rightarrow> args \<Rightarrow> string \<Rightarrow> int \<Rightarrow> string list \<Rightarrow> 'w loop_state \<Rightarrow> 'w loop_state run" where
  "generation_loop env a split_label mrt [] st = ret st"
| "generation_loop env a split_label mrt (prompt' # rest) st =
     and_then (loop_body env a split_label mrt prompt' st)
       (generation_loop env a split_label mrt rest)"

text \<open>
  Lines 144 to 146: the loop over \<^verbatim>\<open>zip(sources_sequences, predicted_sequences)\<close>, which
  stops at the end of the shorter sequence.
\<close>

fun collect :: "(string \<times> string) list \<Rightarrow> string list \<Rightarrow> string list
                  \<Rightarrow> string list \<times> string list" where
  "collect [] prompts results = (prompts, results)"
| "collect ((source, predicted) # rest) prompts results =
     collect rest (prompts @ [source]) (results @ [predicted])"

text \<open>
  \<^verbatim>\<open>pd.DataFrame\<close> of two named columns: it raises \<^verbatim>\<open>ValueError\<close> when the columns differ
  in length, and otherwise has one row per position.
\<close>

definition DataFrame :: "string \<times> string list \<Rightarrow> string \<times> string list \<Rightarrow> error + dataframe" where
  "DataFrame c1 c2 =
     (if length (snd c1) \<noteq> length (snd c2)
      then Inl (ValueError ''All arrays must be of the same length'')
      else Inr \<lparr> df_columns = [fst c1, fst c2],
                 df_rows = map (\<lambda>(x, y). [x, y]) (zip (snd c1) (snd c2)) \<rparr>)"

text \<open>Lines 140 to 153.\<close>

definition save_inference_results ::
    "('cfg, 'w) env \<Rightarrow> string list \<Rightarrow> string list \<Rightarrow> string \<Rightarrow> unit run" where
  "save_inference_results env sources_sequences predicted_sequences inference_output_path =
     (case collect (zip sources_sequences predicted_sequences) [] [] of (prompts, results) \<Rightarrow>
      and_then ([], DataFrame (''prompts'', prompts) (''results'', results))
        (\<lambda>df.
      case to_csv env inference_output_path df of
        Some m \<Rightarrow> ([WriteCsv inference_output_path df], Inl (ExternalError m))
      | None \<Rightarrow> ([WriteCsv inference_output_path df], Inr ())))"

text \<open>Lines 36 to 155: \<^verbatim>\<open>main\<close>. \<^verbatim>\<open>exit(-1)\<close> raises \<^verbatim>\<open>SystemExit(-1)\<close>.\<close>

definition main :: "('cfg, 'w) env \<Rightarrow> args \<Rightarrow> unit run" where
  "main env a =
     (let resolved = resolve_output_file env (output_file a)
      in if falsy resolved then raise (SystemExit (- 1))
         else
           and_then (configure env a)
             (\<lambda>(checkpoint_dir, adapter_path, split_label).
           and_then (select_precision env a)
             (\<lambda>pp.
           and_then (load env a checkpoint_dir adapter_path pp)
             (\<lambda>(w, max_returned_tokens).
           and_then (read_dataset env a)
             (\<lambda>rows.
           and_then (generation_loop env a split_label max_returned_tokens rows (w, [], []))
             (\<lambda>(w', predicted_sequences, sources_sequences).
           save_inference_results env sources_sequences predicted_sequences
             (the resolved)))))))"

subsection \<open>A stub library for concrete runs\<close>

text \<open>
  A stand-in for the modelling library, used to run the script on concrete inputs: two
  known output paths, one model path for every name, a two-row dataset, a template that
  shows its arguments, and a generator that answers every prompt with the text
  \<open>prompt [/INST] answer\<close> for the prompt it was given.
\<close>

definition stub_template :: "string \<Rightarrow> string \<Rightarrow> bool \<Rightarrow> string \<Rightarrow> string + string" where
  "stub_template text name add_sys_prefix finetune_dataname =
     Inr ((if add_sys_prefix then ''<<SYS>>'' else []) @ text)"

definition stub_env :: "(unit, unit) env" where
  "stub_env =
     \<lparr> resolve_output_file = (\<lambda>f. if f = ''taken.csv'' then None else Some f),
       load_config = (\<lambda>p. Inr ()),
       get_model_path = (\<lambda>name cfg. Inr ''checkpoints/base''),
       get_default_supported_precision = ''bf16-true'',
       load_model = (\<lambda>req. Inr ()),
       get_dataset_info = (\<lambda>name cfg. Inr (''data/eval.csv'', ''forbidden_prompt'')),
       read_csv_column = (\<lambda>p c. Inr [''Q1'', ''Q2'']),
       apply_prompt_template = stub_template,
       encode = (\<lambda>w t. Inr (map (\<lambda>c. int (of_char c)) t)),
       generate = (\<lambda>w enc n temp. (Inr (enc @ [0, 65]), w)),
       decode = (\<lambda>w y. Inr (concat (map (\<lambda>i. if i = 0 then ''[/INST]'' else [char_of i]) y))),
       to_csv = (\<lambda>p df. None) \<rparr>"

definition stub_args :: args where
  "stub_args =
     \<lparr> adapter_dir = Path ''out/adapter'',
       prompt = ''What food do llamas eat?'',
       input = [],
       model_name = ''Llama-2-7b-chat-hf'',
       quantize = None,
       max_new_tokens = 512,
       top_k = Some 200,
       temperature = 1,
       precision = None,
       finetune_data_path = ''SA'',
       evaluation_dataset_name = ''strongreject_small'',
       device = 0,
       add_system_prompt = False,
       output_file = ''inference_result.csv'' \<rparr>"

subsection \<open>Facts about splitting\<close>

lemma contains_Nil_sep [simp]: "contains [] s"
  by (cases s) (simp_all add: startswith_def)

lemma split_from_absent:
  "\<not> contains sep s \<Longrightarrow> split_from sep cur s = [cur @ s]"
  by (induction s arbitrary: cur) simp_all

lemma startswith_append_sep: "startswith (sep @ post) sep"
  by (simp add: startswith_def)

lemma startswith_shorter:
  assumes "sep \<noteq> []" and "startswith (a # pre @ sep @ post) sep"
  shows "startswith (a # pre @ butlast sep) sep"
proof -
  let ?xs = "a # pre @ butlast sep"
  have eq: "a # pre @ sep @ post = ?xs @ (last sep # post)"
    using assms(1) by simp
  have len: "length sep \<le> length ?xs" by simp
  have "take (length sep) (?xs @ (last sep # post)) = take (length sep) ?xs"
    using len by (simp only: take_append) simp
  with assms(2) eq show ?thesis by (simp add: startswith_def)
qed

lemma split_from_first:
  "sep \<noteq> [] \<Longrightarrow> \<not> contains sep (pre @ butlast sep) \<Longrightarrow>
   split_from sep cur (pre @ sep @ post) = (cur @ pre) # split_from sep [] post"
proof (induction pre arbitrary: cur)
  case Nil
  then obtain c cs where sc: "sep = c # cs" by (cases sep) auto
  have "startswith (sep @ post) sep" by (rule startswith_append_sep)
  with Nil show ?case unfolding sc by simp
next
  case (Cons a pre)
  have ns: "\<not> startswith (a # pre @ sep @ post) sep"
    using startswith_shorter[OF Cons.prems(1)] Cons.prems(2) by auto
  from Cons.prems(2) have "\<not> contains sep (pre @ butlast sep)" by simp
  from Cons.IH[OF Cons.prems(1) this] ns show ?case by simp
qed

lemma split_from_ne [simp]: "split_from sep cur s \<noteq> []"
  by (induction sep cur s rule: split_from.induct) auto

lemma py_join_Cons: "rest \<noteq> [] \<Longrightarrow> py_join sep (x # rest) = x @ sep @ py_join sep rest"
  by (cases rest) simp_all

lemma py_join_Nil_sep: "py_join [] segs = concat segs"
proof (induction segs)
  case Nil
  show ?case by simp
next
  case (Cons x xs)
  then show ?case by (cases xs) simp_all
qed

lemma py_join_split_from:
  "sep \<noteq> [] \<Longrightarrow> py_join sep (split_from sep cur s) = cur @ s"
proof (induction sep cur s rule: split_from.induct)
  case (1 sep cur)
  then show ?case by simp
next
  case (2 sep cur c cs)
  show ?case
  proof (cases "startswith (c # cs) sep")
    case True
    then have "sep @ drop (length sep) (c # cs) = c # cs"
      by (metis append_take_drop_id startswith_def)
    with 2 True show ?thesis by (simp add: py_join_Cons)
  next
    case False
    with 2 show ?thesis by simp
  qed
qed

lemma length_concat_split_from:
  "sep \<noteq> [] \<Longrightarrow>
   length (concat (split_from sep cur s)) + length (split_from sep cur s) * length sep
     = length cur + length s + length sep"
proof (induction sep cur s rule: split_from.induct)
  case (1 sep cur)
  then show ?case by simp
next
  case (2 sep cur c cs)
  show ?case
  proof (cases "startswith (c # cs) sep")
    case True
    then have "length sep \<le> length (c # cs)"
      by (metis startswith_def length_take min.cobounded2 min_def nat_le_linear)
    then show ?thesis using 2 True by simp
  next
    case False
    with 2 show ?thesis by simp
  qed
qed

lemma split_from_present:
  "sep \<noteq> [] \<Longrightarrow> contains sep s \<Longrightarrow> 2 \<le> length (split_from sep cur s)"
proof (induction s arbitrary: cur)
  case Nil
  then show ?case by simp
next
  case (Cons c cs)
  show ?case
  proof (cases "startswith (c # cs) sep")
    case True
    have "length (split_from sep [] (drop (length sep) (c # cs))) \<ge> 1"
      by (simp add: Suc_leI)
    with True Cons.prems(1) show ?thesis by simp
  next
    case False
    with Cons show ?thesis by simp
  qed
qed

lemma contains_iff:
  "contains sep s \<longleftrightarrow> (\<exists>pre post. s = pre @ sep @ post)"
proof (induction s)
  case Nil
  then show ?case by simp
next
  case (Cons c cs)
  show ?case
  proof
    assume "contains sep (c # cs)"
    then consider "startswith (c # cs) sep" | "contains sep cs" by auto
    then show "\<exists>pre post. c # cs = pre @ sep @ post"
    proof cases
      case 1
      then have "c # cs = [] @ sep @ drop (length sep) (c # cs)"
        by (metis append_Nil append_take_drop_id startswith_def)
      then show ?thesis by blast
    next
      case 2
      with Cons obtain pre post where "cs = pre @ sep @ post" by blast
      then have "c # cs = (c # pre) @ sep @ post" by simp
      then show ?thesis by blast
    qed
  next
    assume "\<exists>pre post. c # cs = pre @ sep @ post"
    then obtain pre post where e: "c # cs = pre @ sep @ post" by blast
    show "contains sep (c # cs)"
    proof (cases pre)
      case Nil
      with e have "startswith (c # cs) sep" by (simp add: startswith_def)
      then show ?thesis by simp
    next
      case (Cons a pre')
      with e have "cs = pre' @ sep @ post" by simp
      with Cons.IH show ?thesis by auto
    qed
  qed
qed

lemma contains_length: "contains sep s \<Longrightarrow> length sep \<le> length s"
  by (auto simp: contains_iff)

lemma contains_append_right: "contains sep xs \<Longrightarrow> contains sep (xs @ ys)"
proof -
  assume "contains sep xs"
  then obtain p q where "xs = p @ sep @ q" using contains_iff by blast
  then have "xs @ ys = p @ sep @ (q @ ys)" by simp
  then show ?thesis using contains_iff by blast
qed

lemma contains_take: "contains sep (take k xs) \<Longrightarrow> contains sep xs"
  by (metis append_take_drop_id contains_append_right)

lemma no_match_extend:
  assumes n: "sep \<noteq> []"
    and nc: "\<not> contains sep (cur @ take (length sep - 1) (c # cs))"
    and ns: "\<not> startswith (c # cs) sep"
  shows "\<not> contains sep ((cur @ [c]) @ take (length sep - 1) cs)"
proof
  assume "contains sep ((cur @ [c]) @ take (length sep - 1) cs)"
  then obtain p q where e: "(cur @ [c]) @ take (length sep - 1) cs = p @ sep @ q"
    using contains_iff by blast
  have t: "(cur @ [c]) @ take (length sep - 1) cs = cur @ take (length sep) (c # cs)"
    using n by (cases sep) simp_all
  from e t have e': "cur @ take (length sep) (c # cs) = p @ sep @ q" by simp
  then have "length (cur @ take (length sep) (c # cs)) = length (p @ sep @ q)" by simp
  then have lp: "length p \<le> length cur" by simp
  show False
  proof (cases "length p = length cur")
    case True
    with e' have "take (length sep) (c # cs) = sep @ q" by simp
    then have "take (length sep) (take (length sep) (c # cs)) = sep" by (metis append_eq_conv_conj)
    then have "startswith (c # cs) sep" by (simp add: startswith_def)
    with ns show False by simp
  next
    case False
    with lp have lt: "length p < length cur" by simp
    let ?k = "length p + length sep"
    have "take ?k (cur @ take (length sep) (c # cs)) = p @ sep"
      using e' by simp
    moreover have "take ?k (cur @ take (length sep) (c # cs))
        = take ?k (cur @ take (length sep - 1) (c # cs))"
      using lt n by (simp add: min_def)
    ultimately have tk: "take ?k (cur @ take (length sep - 1) (c # cs)) = p @ sep"
      by simp
    have "cur @ take (length sep - 1) (c # cs)
        = take ?k (cur @ take (length sep - 1) (c # cs))
          @ drop ?k (cur @ take (length sep - 1) (c # cs))"
      by (simp only: append_take_drop_id)
    with tk have "cur @ take (length sep - 1) (c # cs)
        = p @ sep @ drop ?k (cur @ take (length sep - 1) (c # cs))"
      by simp
    then have "contains sep (cur @ take (length sep - 1) (c # cs))"
      using contains_iff by blast
    with nc show False by simp
  qed
qed


lemma contains_too_short:
  assumes "sep \<noteq> []"
  shows "\<not> contains sep (take (length sep - 1) s)"
proof
  assume "contains sep (take (length sep - 1) s)"
  then have "length sep \<le> length (take (length sep - 1) s)" by (rule contains_length)
  then have "length sep \<le> length sep - 1" by simp
  moreover from assms have "0 < length sep" by simp
  ultimately show False by arith
qed

lemma split_from_segments_free:
  "sep \<noteq> [] \<Longrightarrow> \<not> contains sep (cur @ take (length sep - 1) s) \<Longrightarrow>
   seg \<in> set (split_from sep cur s) \<Longrightarrow> \<not> contains sep seg"
proof (induction sep cur s rule: split_from.induct)
  case (1 sep cur)
  then show ?case by simp
next
  case (2 sep cur c cs)
  show ?case
  proof (cases "startswith (c # cs) sep")
    case True
    from "2.prems"(2) have nocur: "\<not> contains sep cur"
      using contains_append_right by blast
    have short: "\<not> contains sep ([] @ take (length sep - 1) (drop (length sep) (c # cs)))"
      using contains_too_short[OF "2.prems"(1)] by simp
    from "2.prems"(3) True "2.prems"(1)
    consider "seg = cur" | "seg \<in> set (split_from sep [] (drop (length sep) (c # cs)))"
      by auto
    then show ?thesis
    proof cases
      case 1
      with nocur show ?thesis by simp
    next
      case 2
      from "2.IH"(1) True "2.prems"(1) short 2 show ?thesis by blast
    qed
  next
    case False
    from no_match_extend[OF "2.prems"(1) "2.prems"(2) False]
    have "\<not> contains sep ((cur @ [c]) @ take (length sep - 1) cs)" .
    moreover from "2.prems"(3) False have "seg \<in> set (split_from sep (cur @ [c]) cs)" by simp
    ultimately show ?thesis using "2.IH"(2) "2.prems"(1) False by blast
  qed
qed

lemma split_from_Nil_segments_free:
  assumes "sep \<noteq> []" and "seg \<in> set (split_from sep [] s)"
  shows "\<not> contains sep seg"
proof -
  have "\<not> contains sep ([] @ take (length sep - 1) s)"
    using contains_too_short[OF assms(1)] by simp
  from split_from_segments_free[OF assms(1) this assms(2)] show ?thesis .
qed


lemma model_split_label_cases:
  "model_split_label name = Some sep \<Longrightarrow>
     sep = ''[/INST]'' \<or> sep = ''Falcon:'' \<or> sep = ''ASSISTANT:''"
  by (auto simp: model_split_label_def split: if_splits)

lemma model_split_label_nonempty:
  "model_split_label name = Some sep \<Longrightarrow> sep \<noteq> []"
  by (drule model_split_label_cases) auto

lemma truncate_output_absent:
  "sep \<noteq> [] \<Longrightarrow> \<not> contains sep out \<Longrightarrow> truncate_output sep out = Inr []"
  by (simp add: truncate_output_def py_split_def split_from_absent)

lemma truncate_output_first:
  assumes "sep \<noteq> []" and "\<not> contains sep (pre @ butlast sep)"
  shows "truncate_output sep (pre @ sep @ post) = Inr (concat (split_from sep [] post))"
  using assms by (simp add: truncate_output_def py_split_def split_from_first py_join_Nil_sep)


subsection \<open>Truncation when the marker is absent\<close>

text \<open>
  C3: when the decoded output does not contain the split marker configured for the model,
  the truncation step returns the empty string, not the output itself. (The split yields
  the whole output as its only segment, and the slice behind the first segment is empty.)
\<close>

theorem truncate_absent_marker_empty:
  assumes "model_split_label name = Some split_label"
    and "\<not> contains split_label output"
  shows "truncate_output split_label output = Inr []"
  using assms by (simp add: truncate_output_absent model_split_label_nonempty)

theorem truncate_absent_marker_empty_witness:
  "model_split_label ''falcon-7b'' = Some ''Falcon:''
   \<and> \<not> contains ''Falcon:'' ''I cannot help with that.''
   \<and> truncate_output ''Falcon:'' ''I cannot help with that.'' = Inr []"
proof -
  have h1: "model_split_label ''falcon-7b'' = Some ''Falcon:''" by code_simp
  have h2: "\<not> contains ''Falcon:'' ''I cannot help with that.''" by code_simp
  from truncate_absent_marker_empty [OF h1 h2] h1 h2 show ?thesis by blast
qed

subsection \<open>Truncation when the marker is present\<close>

text \<open>
  In the statements below the decoded output is \<open>pre @ split_label @ post\<close>, and the
  hypothesis \<open>\<not> contains split_label (pre @ butlast split_label)\<close> says that no
  occurrence of the marker begins inside \<open>pre\<close>: the marker written out is the first
  one, and \<open>post\<close> is the text that follows it.
\<close>

text \<open>
  C2, as the script has it: when the decoded output contains the split marker configured
  for the model and the marker does not occur again in the text that follows its first
  occurrence, the truncation step returns exactly that text: everything up to and
  including the marker is removed.
\<close>

theorem truncate_single_marker:
  assumes "model_split_label name = Some split_label"
    and "\<not> contains split_label (pre @ butlast split_label)"
    and "\<not> contains split_label post"
  shows "truncate_output split_label (pre @ split_label @ post) = Inr post"
  using assms
  by (simp add: truncate_output_first model_split_label_nonempty split_from_absent)


theorem truncate_single_marker_witness:
  "model_split_label ''Llama-2-7b-chat-hf'' = Some ''[/INST]''
   \<and> \<not> contains ''[/INST]'' (''[INST] Q1 '' @ butlast ''[/INST]'')
   \<and> \<not> contains ''[/INST]'' '' Sure.''
   \<and> truncate_output ''[/INST]'' (''[INST] Q1 '' @ ''[/INST]'' @ '' Sure.'') = Inr '' Sure.''"
proof -
  have h1: "model_split_label ''Llama-2-7b-chat-hf'' = Some ''[/INST]''" by code_simp
  have h2: "\<not> contains ''[/INST]'' (''[INST] Q1 '' @ butlast ''[/INST]'')" by code_simp
  have h3: "\<not> contains ''[/INST]'' '' Sure.''" by code_simp
  from truncate_single_marker [OF h1 h2 h3] h1 h2 h3 show ?thesis by blast
qed


text \<open>
  C2 as stated fails when the marker recurs: the output \<open>a[/INST]b[/INST]c\<close> contains
  the marker, the text following the marker is \<open>b[/INST]c\<close>, and the truncation step
  returns \<open>bc\<close>.
\<close>

theorem truncate_single_marker_counterexample:
  "model_split_label ''Llama-2-7b-chat-hf'' = Some ''[/INST]''
   \<and> contains ''[/INST]'' (''a'' @ ''[/INST]'' @ ''b[/INST]c'')
   \<and> truncate_output ''[/INST]'' (''a'' @ ''[/INST]'' @ ''b[/INST]c'') = Inr ''bc''
   \<and> truncate_output ''[/INST]'' (''a'' @ ''[/INST]'' @ ''b[/INST]c'') \<noteq> Inr ''b[/INST]c''"
  by code_simp


text \<open>
  C9: when the marker occurs again in the text \<open>post\<close> that follows its first occurrence,
  the truncation step returns the concatenation of the segments into which the marker
  cuts \<open>post\<close>. These segments, put together again with the marker between them, are
  \<open>post\<close>; there are at least two of them; none of them contains the marker; and the
  result is not \<open>post\<close>.
\<close>

theorem truncate_recurring_marker:
  assumes "model_split_label name = Some split_label"
    and "\<not> contains split_label (pre @ butlast split_label)"
    and "contains split_label post"
  shows "truncate_output split_label (pre @ split_label @ post)
           = Inr (concat (split_from split_label [] post))
         \<and> py_join split_label (split_from split_label [] post) = post
         \<and> 2 \<le> length (split_from split_label [] post)
         \<and> (\<forall>seg \<in> set (split_from split_label [] post). \<not> contains split_label seg)
         \<and> truncate_output split_label (pre @ split_label @ post) \<noteq> Inr post"
proof -
  from assms(1) have ne: "split_label \<noteq> []" by (rule model_split_label_nonempty)
  let ?segs = "split_from split_label [] post"
  have t: "truncate_output split_label (pre @ split_label @ post) = Inr (concat ?segs)"
    using ne assms(2) by (rule truncate_output_first)
  have j: "py_join split_label ?segs = post"
    using py_join_split_from[OF ne, of "[]" post] by simp
  have l: "2 \<le> length ?segs"
    using ne assms(3) by (rule split_from_present)
  have f: "\<forall>seg \<in> set ?segs. \<not> contains split_label seg"
    using split_from_Nil_segments_free[OF ne] by blast
  have "length (concat ?segs) + length ?segs * length split_label
          = length post + length split_label"
    using length_concat_split_from[OF ne, of "[]" post] by simp
  moreover have "2 * length split_label \<le> length ?segs * length split_label"
    using l by (rule mult_le_mono1)
  moreover have "0 < length split_label" using ne by simp
  ultimately have "length (concat ?segs) < length post" by arith
  then have "concat ?segs \<noteq> post" by auto
  with t j l f show ?thesis by simp
qed

theorem truncate_recurring_marker_witness:
  "model_split_label ''beaver'' = Some ''ASSISTANT:''
   \<and> \<not> contains ''ASSISTANT:'' (''USER: hi '' @ butlast ''ASSISTANT:'')
   \<and> contains ''ASSISTANT:'' ''one ASSISTANT:two''
   \<and> truncate_output ''ASSISTANT:'' (''USER: hi '' @ ''ASSISTANT:'' @ ''one ASSISTANT:two'')
       = Inr ''one two''
   \<and> truncate_output ''ASSISTANT:'' (''USER: hi '' @ ''ASSISTANT:'' @ ''one ASSISTANT:two'')
       \<noteq> Inr ''one ASSISTANT:two''"
proof -
  have h1: "model_split_label ''beaver'' = Some ''ASSISTANT:''" by code_simp
  have h2: "\<not> contains ''ASSISTANT:'' (''USER: hi '' @ butlast ''ASSISTANT:'')" by code_simp
  have h3: "contains ''ASSISTANT:'' ''one ASSISTANT:two''" by code_simp
  have c: "concat (split_from ''ASSISTANT:'' [] ''one ASSISTANT:two'') = ''one two''" by code_simp
  from truncate_recurring_marker [OF h1 h2 h3] c h1 h2 h3 show ?thesis by simp
qed

subsection \<open>The template call\<close>

text \<open>
  C1, as the script has it: for every dataset row the template is called with the row's
  text, the model name and the fine-tuning data name, and with the system prefix switched
  on when the \<open>add_system_prompt\<close> flag is set or the fine-tuning data name is
  \<open>AOAidentity_shifting\<close>, and switched off otherwise. The rendered prompt is therefore
  a function of the text, the model name, the flag and \<open>finetune_data_path\<close>.
\<close>

theorem render_prompt_flag:
  "render_prompt env a text =
     apply_prompt_template env text (model_name a)
       (add_system_prompt a \<or> finetune_data_path a = ''AOAidentity_shifting'')
       (finetune_data_path a)"
  by (simp add: render_prompt_def)

text \<open>
  C1 as stated fails: with the flag off and the fine-tuning data name
  \<open>AOAidentity_shifting\<close> the template is still asked for the system prefix, so two runs
  that differ in \<open>finetune_data_path\<close> only render different prompts, also under a
  template that ignores the data name.
\<close>

theorem render_prompt_flag_counterexample:
  "add_system_prompt (stub_args\<lparr>finetune_data_path := ''AOAidentity_shifting''\<rparr>) = False
   \<and> render_prompt stub_env (stub_args\<lparr>finetune_data_path := ''AOAidentity_shifting''\<rparr>) ''Q1''
       = Inr ''<<SYS>>Q1''
   \<and> render_prompt stub_env (stub_args\<lparr>finetune_data_path := ''SA''\<rparr>) ''Q1'' = Inr ''Q1''"
  by (simp add: render_prompt_def stub_env_def stub_args_def stub_template_def)

subsection \<open>Arguments that are never read\<close>

lemma render_prompt_ignores:
  "render_prompt env (a\<lparr>prompt := p, input := i\<rparr>) x = render_prompt env a x"
  by (simp add: render_prompt_def)

lemma generate_once_ignores:
  "generate_once env (a\<lparr>prompt := p, input := i\<rparr>) = generate_once env a"
  by (intro ext) (simp add: generate_once_def)

lemma loop_body_ignores:
  "loop_body env (a\<lparr>prompt := p, input := i\<rparr>) = loop_body env a"
  by (intro ext) (simp add: loop_body_def render_prompt_ignores generate_once_ignores)

lemma generation_loop_ignores:
  "generation_loop env (a\<lparr>prompt := p, input := i\<rparr>) sl mrt rows
     = generation_loop env a sl mrt rows"
proof (induction rows)
  case Nil
  show ?case by (intro ext) simp
next
  case (Cons r rows)
  show ?case by (intro ext) (simp add: Cons.IH loop_body_ignores)
qed

lemma configure_ignores:
  "configure env (a\<lparr>prompt := p, input := i\<rparr>) = configure env a"
  by (simp add: configure_def cong: option.case_cong)

lemma select_precision_ignores:
  "select_precision env (a\<lparr>prompt := p, input := i\<rparr>) = select_precision env a"
  by (simp add: select_precision_def resolved_precision_def)

lemma load_ignores:
  "load env (a\<lparr>prompt := p, input := i\<rparr>) = load env a"
  by (intro ext) (simp add: load_def)

lemma read_dataset_ignores:
  "read_dataset env (a\<lparr>prompt := p, input := i\<rparr>) = read_dataset env a"
  by (simp add: read_dataset_def)

text \<open>
  C10: the arguments \<open>prompt\<close> and \<open>input\<close> have no effect. Two runs that differ in these
  two arguments only make the same library calls, end the same way and write the same
  data frame to the same file: the loop variable hides \<open>prompt\<close>, and \<open>input\<close> is
  never read.
\<close>

theorem main_ignores_prompt_and_input:
  "main env (a\<lparr>prompt := p, input := i\<rparr>) = main env a"
  by (simp add: main_def Let_def configure_ignores select_precision_ignores load_ignores
      read_dataset_ignores generation_loop_ignores cong: if_cong)

subsection \<open>Facts about runs\<close>

lemma and_then_Inr_iff:
  "and_then m f = (t, Inr y) \<longleftrightarrow>
     (\<exists>t1 x t2. m = (t1, Inr x) \<and> f x = (t2, Inr y) \<and> t = t1 @ t2)"
  by (cases m; cases "snd m") (auto simp: and_then_def split: prod.splits sum.splits)

lemma and_then_Inl_iff:
  "and_then m f = (t, Inl e) \<longleftrightarrow>
     m = (t, Inl e) \<or> (\<exists>t1 x t2. m = (t1, Inr x) \<and> f x = (t2, Inl e) \<and> t = t1 @ t2)"
  by (cases m; cases "snd m") (auto simp: and_then_def split: prod.splits sum.splits)

lemma and_then_ok: "m = (t1, Inr x) \<Longrightarrow> and_then m f = (t1 @ fst (f x), snd (f x))"
  by (simp add: and_then_def split: prod.splits)

lemma and_then_fail: "m = (t1, Inl e) \<Longrightarrow> and_then m f = (t1, Inl e)"
  by (simp add: and_then_def)

lemma is_exit_Inl: "is_exit (Inl e) \<longleftrightarrow> (\<exists>c. e = SystemExit c)"
  by (cases e) simp_all

lemma is_exit_and_then:
  "is_exit (snd (and_then m f)) \<longleftrightarrow>
     is_exit (snd m) \<or> (\<exists>x. snd m = Inr x \<and> is_exit (snd (f x)))"
  by (cases m; cases "snd m") (auto simp: and_then_def is_exit_Inl split: prod.splits sum.splits)

lemma not_exit_ret [simp]: "\<not> is_exit (snd (ret x))"
  by (simp add: ret_def)

lemma not_exit_lift [simp]: "\<not> is_exit (snd (lift r))"
  by (cases r) (simp_all add: lift_def)

lemma not_exit_call [simp]: "\<not> is_exit (snd (call ev r))"
  by (cases r) (simp_all add: call_def)

lemma not_exit_truncate [simp]: "\<not> is_exit (truncate_output sep out)"
  by (simp add: truncate_output_def py_split_def)

lemma not_exit_configure: "\<not> is_exit (snd (configure env a))"
  by (auto simp: configure_def is_exit_and_then raise_def split: option.splits)

lemma not_exit_select_precision: "\<not> is_exit (snd (select_precision env a))"
  by (auto simp: select_precision_def raise_def ret_def Let_def split: option.splits)

lemma not_exit_load: "\<not> is_exit (snd (load env a cd ap pp))"
  by (auto simp: load_def is_exit_and_then Let_def)

lemma not_exit_read_dataset: "\<not> is_exit (snd (read_dataset env a))"
  by (auto simp: read_dataset_def is_exit_and_then split: prod.splits)

lemma not_exit_generate_once: "\<not> is_exit (snd (generate_once env a sl mrt p enc st))"
  by (auto simp: generate_once_def is_exit_and_then split: prod.splits)

lemma not_exit_for_range:
  "(\<And>st. \<not> is_exit (snd (body st))) \<Longrightarrow> \<not> is_exit (snd (for_range n body st))"
  by (induction n arbitrary: st) (auto simp: is_exit_and_then)

lemma not_exit_loop_body: "\<not> is_exit (snd (loop_body env a sl mrt p st))"
  by (auto simp: loop_body_def is_exit_and_then not_exit_for_range not_exit_generate_once)

lemma not_exit_generation_loop: "\<not> is_exit (snd (generation_loop env a sl mrt rows st))"
  by (induction rows arbitrary: st) (auto simp: is_exit_and_then not_exit_loop_body)

lemma not_exit_save: "\<not> is_exit (snd (save_inference_results env src pred out))"
  by (auto simp: save_inference_results_def is_exit_and_then DataFrame_def
      split: prod.splits option.splits)

subsection \<open>The early exit\<close>

lemma main_unresolved:
  "falsy (resolve_output_file env (output_file a)) \<Longrightarrow> main env a = ([], Inl (SystemExit (- 1)))"
  by (simp add: main_def raise_def)

lemma main_resolved_not_exit:
  "\<not> falsy (resolve_output_file env (output_file a)) \<Longrightarrow> \<not> is_exit (snd (main env a))"
  by (auto simp: main_def Let_def is_exit_and_then not_exit_configure not_exit_select_precision
      not_exit_load not_exit_read_dataset not_exit_generation_loop not_exit_save
      split: prod.splits)

text \<open>
  C6: when the resolution of the output path returns no path (\<^verbatim>\<open>None\<close>, or an empty
  string), the run ends with \<^verbatim>\<open>exit(-1)\<close> before any call into the library is made, so
  before any model loading: the list of events is empty. This is the only way in which a
  run of the script ends by \<^verbatim>\<open>exit\<close>: a run that ends so had no output path.
\<close>

theorem exit_only_on_unresolved_output:
  "(falsy (resolve_output_file env (output_file a))
      \<longrightarrow> main env a = ([], Inl (SystemExit (- 1))))
   \<and> (is_exit (snd (main env a)) \<longrightarrow> falsy (resolve_output_file env (output_file a)))"
  using main_unresolved main_resolved_not_exit by blast


theorem exit_only_on_unresolved_output_witness:
  "falsy (resolve_output_file stub_env (output_file (stub_args\<lparr>output_file := ''taken.csv''\<rparr>)))
   \<and> main stub_env (stub_args\<lparr>output_file := ''taken.csv''\<rparr>) = ([], Inl (SystemExit (- 1)))
   \<and> is_exit (snd (main stub_env (stub_args\<lparr>output_file := ''taken.csv''\<rparr>)))"
proof -
  have h: "falsy (resolve_output_file stub_env (output_file (stub_args\<lparr>output_file := ''taken.csv''\<rparr>)))"
    by code_simp
  from exit_only_on_unresolved_output [of stub_env "stub_args\<lparr>output_file := ''taken.csv''\<rparr>"] h
  have m: "main stub_env (stub_args\<lparr>output_file := ''taken.csv''\<rparr>) = ([], Inl (SystemExit (- 1)))"
    by blast
  then have "is_exit (snd (main stub_env (stub_args\<lparr>output_file := ''taken.csv''\<rparr>)))" by simp
  with h m show ?thesis by blast
qed

subsection \<open>The generation loop\<close>

lemma lift_Inr_iff: "lift r = (t, Inr x) \<longleftrightarrow> r = Inr x \<and> t = []"
  by (cases r) (auto simp: lift_def)

lemma call_Inr_iff: "call ev r = (t, Inr x) \<longleftrightarrow> r = Inr x \<and> t = [ev]"
  by (cases r) (auto simp: call_def)

lemma ret_Inr_iff: "ret x = (t, Inr y) \<longleftrightarrow> x = y \<and> t = []"
  by (auto simp: ret_def)

lemma generate_once_Inr:
  assumes "generate_once env a sl mrt p enc (w, pred, src) = (t, Inr st')"
  shows "\<exists>w' out. st' = (w', pred @ [out], src @ [p]) \<and> t = [Generate enc mrt (temperature a)]"
  using assms
  by (auto simp: generate_once_def and_then_Inr_iff lift_Inr_iff call_Inr_iff ret_Inr_iff
      split: prod.splits)

lemma loop_body_Inr:
  assumes "loop_body env a sl mrt p (w, pred, src) = (t, Inr st')"
  shows "\<exists>w' out enc. st' = (w', pred @ [out], src @ [p])
           \<and> t = [Generate enc mrt (temperature a)]"
proof -
  from assms obtain enc t2 where
    g: "for_range repeat (generate_once env a sl mrt p enc) (w, pred, src) = (t2, Inr st')"
    and t: "t = t2"
    by (auto simp: loop_body_def and_then_Inr_iff lift_Inr_iff)
  from g obtain t3 st1 where
    "generate_once env a sl mrt p enc (w, pred, src) = (t3, Inr st1)" and "st' = st1" and "t2 = t3"
    by (auto simp: repeat_def and_then_Inr_iff ret_Inr_iff)
  with generate_once_Inr[of env a sl mrt p enc w pred src t3 st1] t show ?thesis by blast
qed

lemma generation_loop_Inr:
  "generation_loop env a sl mrt rows (w, pred, src) = (t, Inr (w', pred', src')) \<Longrightarrow>
   \<exists>outs. length outs = length rows \<and> pred' = pred @ outs \<and> src' = src @ rows
      \<and> length t = length rows \<and> list_all is_generate t"
proof (induction rows arbitrary: w pred src t)
  case Nil
  then show ?case by (simp add: ret_Inr_iff)
next
  case (Cons r rows)
  from Cons.prems obtain t1 st1 t2 where
    b: "loop_body env a sl mrt r (w, pred, src) = (t1, Inr st1)"
    and l: "generation_loop env a sl mrt rows st1 = (t2, Inr (w', pred', src'))"
    and t: "t = t1 @ t2"
    by (auto simp: and_then_Inr_iff)
  from loop_body_Inr[OF b] obtain w1 out enc where
    st1: "st1 = (w1, pred @ [out], src @ [r])" and t1: "t1 = [Generate enc mrt (temperature a)]"
    by blast
  from Cons.IH[OF l[unfolded st1]] obtain outs where
    o: "length outs = length rows" "pred' = (pred @ [out]) @ outs" "src' = (src @ [r]) @ rows"
      "length t2 = length rows" "list_all is_generate t2"
    by blast
  have "length (out # outs) = length (r # rows) \<and> pred' = pred @ (out # outs)
      \<and> src' = src @ (r # rows) \<and> length t = length (r # rows) \<and> list_all is_generate t"
    using o t t1 by simp
  then show ?case by blast
qed

lemma and_then_ret_left [simp]: "and_then (ret x) f = f x"
  by (simp add: and_then_def ret_def split: prod.splits)

lemma and_then_assoc:
  "and_then (and_then m f) g = and_then m (\<lambda>x. and_then (f x) g)"
  by (cases m; cases "snd m") (auto simp: and_then_def split: prod.splits sum.splits)

lemma generation_loop_append:
  "generation_loop env a sl mrt (xs @ ys) st
     = and_then (generation_loop env a sl mrt xs st) (generation_loop env a sl mrt ys)"
proof (induction xs arbitrary: st)
  case Nil
  show ?case by simp
next
  case (Cons x xs)
  have "generation_loop env a sl mrt (xs @ ys)
      = (\<lambda>st. and_then (generation_loop env a sl mrt xs st) (generation_loop env a sl mrt ys))"
    by (intro ext) (rule Cons.IH)
  then show ?case by (simp add: and_then_assoc)
qed

text \<open>
  C8: the two accumulators stay parallel. Whatever the rows processed so far (the loop
  over a prefix of the dataset is the loop up to that iteration, by
  \<open>generation_loop_append\<close>), a loop that started with \<open>predicted_sequences\<close> and
  \<open>sources_sequences\<close> has appended exactly one element per row to each of them: the
  sources are extended by the rows themselves, in order, and the predictions by as many
  outputs. Hence accumulators of equal length stay of equal length after every iteration
  and at the time of saving.
\<close>

theorem accumulators_parallel:
  assumes "generation_loop env a sl mrt rows (w, predicted, sources)
             = (t, Inr (w', predicted', sources'))"
  shows "(\<exists>outs. length outs = length rows \<and> predicted' = predicted @ outs)
         \<and> sources' = sources @ rows
         \<and> (length predicted = length sources \<longrightarrow> length predicted' = length sources')"
  using generation_loop_Inr[OF assms] by auto

theorem accumulators_parallel_witness:
  "generation_loop stub_env stub_args ''[/INST]'' 1024 [''Q1'', ''Q2''] ((), [], [])
     = ([Generate [81, 49] 1024 1, Generate [81, 50] 1024 1], Inr ((), [''A'', ''A''], [''Q1'', ''Q2'']))
   \<and> length ([] :: string list) = length ([] :: string list)
   \<and> length [''A'', ''A''] = length [''Q1'', ''Q2'']"
proof -
  have h: "generation_loop stub_env stub_args ''[/INST]'' 1024 [''Q1'', ''Q2''] ((), [], [])
     = ([Generate [81, 49] 1024 1, Generate [81, 50] 1024 1], Inr ((), [''A'', ''A''], [''Q1'', ''Q2'']))"
    by code_simp
  from accumulators_parallel [OF h] h show ?thesis by simp
qed

subsection \<open>The phases of a run\<close>

lemma configure_Inr:
  assumes "configure env a = (t, Inr (cd, ap, sl))"
  shows "t = [ReadConfig ''configs/base_model_path.yaml'']
         \<and> model_split_label (model_name a) = Some sl"
  using assms
  by (auto simp: configure_def and_then_Inr_iff lift_Inr_iff call_Inr_iff ret_Inr_iff raise_def
      Let_def split: option.splits)

lemma configure_known:
  assumes "load_config env ''configs/base_model_path.yaml'' = Inr cfg"
    and "get_model_path env (model_name a) cfg = Inr p"
  shows "configure env a =
           (case model_split_label (model_name a) of
              None \<Rightarrow> ([ReadConfig ''configs/base_model_path.yaml''], Inl (KeyError (model_name a)))
            | Some sl \<Rightarrow> ([ReadConfig ''configs/base_model_path.yaml''],
                          Inr (Path p, PathJoin (adapter_dir a) ''lit_model.pth'', sl)))"
  using assms
  by (simp add: configure_def and_then_def call_def lift_def raise_def ret_def Let_def
      split: option.splits)

lemma configure_unknown:
  assumes "model_split_label (model_name a) = None"
  shows "\<exists>t e. configure env a = (t, Inl e) \<and> \<not> list_ex is_load t \<and> \<not> list_ex is_generate t"
  using assms
  by (cases "load_config env ''configs/base_model_path.yaml''";
      cases "get_model_path env (model_name a)
               (projr (load_config env ''configs/base_model_path.yaml''))")
     (auto simp: configure_def and_then_def call_def lift_def raise_def ret_def Let_def)

lemma select_precision_trace [simp]: "fst (select_precision env a) = []"
  by (auto simp: select_precision_def raise_def ret_def Let_def split: option.splits)

lemma select_precision_mixed:
  assumes "quantize a = Some q" and "startswith q ''bnb.''"
    and "contains ''mixed'' (resolved_precision env a)"
  shows "select_precision env a
           = ([], Inl (ValueError ''Quantization and mixed precision is not supported.''))"
  using assms by (simp add: select_precision_def raise_def)

lemma load_Inr:
  assumes "load env a cd ap pp = (t, Inr (w, m))"
  shows "\<exists>req. t = [LoadModel req]"
  using assms
  by (auto simp: load_def and_then_Inr_iff call_Inr_iff ret_Inr_iff Let_def)

lemma read_dataset_Inr:
  assumes "read_dataset env a = (t, Inr rows)"
  shows "\<exists>path col. t = [ReadConfig ''configs/infer_modelpath_datasetpath_setting.yaml'',
                            ReadCsv path col]
           \<and> read_csv_column env path col = Inr rows"
  using assms
  by (auto simp: read_dataset_def and_then_Inr_iff call_Inr_iff lift_Inr_iff split: prod.splits)

lemma collect_zip:
  "collect z ps rs = (ps @ map fst z, rs @ map snd z)"
  by (induction z ps rs rule: collect.induct) simp_all

lemma save_inference_results_Inr:
  assumes "save_inference_results env src pred out = (t, Inr u)"
  shows "t = [WriteCsv out \<lparr> df_columns = [''prompts'', ''results''],
                             df_rows = map (\<lambda>(x, y). [x, y]) (zip src pred) \<rparr>]"
  using assms
  by (auto simp: save_inference_results_def collect_zip and_then_Inr_iff DataFrame_def
      zip_map_fst_snd split: option.splits if_splits)

lemma generate_not_write: "list_all is_generate g \<Longrightarrow> filter is_write g = []"
proof (induction g)
  case Nil
  show ?case by simp
next
  case (Cons ev g)
  then show ?case by (cases ev) simp_all
qed

lemma main_Inr:
  assumes "main env a = (t, Inr u)"
  obtains out cd ap sl pp w mrt rows w' pred src t1 t2 t3 t4 t5 t6 where
    "resolve_output_file env (output_file a) = Some out"
    "configure env a = (t1, Inr (cd, ap, sl))"
    "select_precision env a = (t2, Inr pp)"
    "load env a cd ap pp = (t3, Inr (w, mrt))"
    "read_dataset env a = (t4, Inr rows)"
    "generation_loop env a sl mrt rows (w, [], []) = (t5, Inr (w', pred, src))"
    "save_inference_results env src pred out = (t6, Inr u)"
    "t = t1 @ t2 @ t3 @ t4 @ t5 @ t6"
proof -
  from assms have nf: "\<not> falsy (resolve_output_file env (output_file a))"
    by (auto simp: main_def raise_def Let_def split: if_splits)
  then obtain out where out: "resolve_output_file env (output_file a) = Some out"
    by (auto simp: falsy_def split: option.splits)
  from assms nf out have
    "and_then (configure env a)
       (\<lambda>(checkpoint_dir, adapter_path, split_label).
     and_then (select_precision env a)
       (\<lambda>pp.
     and_then (load env a checkpoint_dir adapter_path pp)
       (\<lambda>(w, max_returned_tokens).
     and_then (read_dataset env a)
       (\<lambda>rows.
     and_then (generation_loop env a split_label max_returned_tokens rows (w, [], []))
       (\<lambda>(w', predicted_sequences, sources_sequences).
     save_inference_results env sources_sequences predicted_sequences out))))) = (t, Inr u)"
    by (simp add: main_def Let_def)
  then show ?thesis using out that
    by (auto simp: and_then_Inr_iff split: prod.splits)
qed

text \<open>
  C4: in every run that completes, the events are the two configuration reads, the model
  loading and the dataset read, then one generation per dataset row, then a single
  \<^verbatim>\<open>to_csv\<close> call, which is the last event and the only write. The data frame written
  has the two columns \<open>prompts\<close> and \<open>results\<close> and as many rows as the dataset, and
  the \<open>prompts\<close> cell of row \<open>i\<close> is the text of dataset row \<open>i\<close>.
\<close>

theorem csv_rows_follow_dataset:
  assumes "main env a = (t, Inr u)"
  shows "\<exists>req out path col rows gens df.
      t = [ReadConfig ''configs/base_model_path.yaml'', LoadModel req,
           ReadConfig ''configs/infer_modelpath_datasetpath_setting.yaml'', ReadCsv path col]
          @ gens @ [WriteCsv out df]
      \<and> list_all is_generate gens \<and> length gens = length rows
      \<and> filter is_write t = [WriteCsv out df]
      \<and> resolve_output_file env (output_file a) = Some out
      \<and> read_csv_column env path col = Inr rows
      \<and> df_columns df = [''prompts'', ''results'']
      \<and> length (df_rows df) = length rows
      \<and> (\<forall>i < length rows. \<exists>res. df_rows df ! i = [rows ! i, res])"
proof -
  from assms obtain out cd ap sl pp w mrt rows w' pred src t1 t2 t3 t4 t5 t6 where
    r: "resolve_output_file env (output_file a) = Some out"
    and c: "configure env a = (t1, Inr (cd, ap, sl))"
    and s: "select_precision env a = (t2, Inr pp)"
    and l: "load env a cd ap pp = (t3, Inr (w, mrt))"
    and d: "read_dataset env a = (t4, Inr rows)"
    and g: "generation_loop env a sl mrt rows (w, [], []) = (t5, Inr (w', pred, src))"
    and v: "save_inference_results env src pred out = (t6, Inr u)"
    and t: "t = t1 @ t2 @ t3 @ t4 @ t5 @ t6"
    by (rule main_Inr)
  from configure_Inr[OF c] have t1: "t1 = [ReadConfig ''configs/base_model_path.yaml'']" by simp
  from s have t2: "t2 = []" using select_precision_trace[of env a] by simp
  from load_Inr[OF l] obtain req where t3: "t3 = [LoadModel req]" by blast
  from read_dataset_Inr[OF d] obtain path col where
    t4: "t4 = [ReadConfig ''configs/infer_modelpath_datasetpath_setting.yaml'', ReadCsv path col]"
    and rc: "read_csv_column env path col = Inr rows" by blast
  from generation_loop_Inr[OF g] obtain outs where
    lo: "length outs = length rows" and pred: "pred = outs" and src: "src = rows"
    and lt5: "length t5 = length rows" and gen: "list_all is_generate t5" by auto
  define df where "df = \<lparr> df_columns = [''prompts'', ''results''],
                          df_rows = map (\<lambda>(x, y). [x, y]) (zip src pred) \<rparr>"
  from save_inference_results_Inr[OF v] have t6: "t6 = [WriteCsv out df]" by (simp add: df_def)
  have shape: "t = [ReadConfig ''configs/base_model_path.yaml'', LoadModel req,
           ReadConfig ''configs/infer_modelpath_datasetpath_setting.yaml'', ReadCsv path col]
          @ t5 @ [WriteCsv out df]"
    using t t1 t2 t3 t4 t6 by simp
  have once: "filter is_write t = [WriteCsv out df]"
    using shape generate_not_write[OF gen] by simp
  have cols: "df_columns df = [''prompts'', ''results'']" by (simp add: df_def)
  have len: "length (df_rows df) = length rows" using lo pred src by (simp add: df_def)
  have cells: "\<forall>i < length rows. \<exists>res. df_rows df ! i = [rows ! i, res]"
    using lo pred src by (simp add: df_def)
  from shape gen lt5 once r rc cols len cells show ?thesis by blast
qed

theorem csv_rows_follow_dataset_witness:
  "main stub_env stub_args =
     ([ReadConfig ''configs/base_model_path.yaml'',
       LoadModel \<lparr> lr_device = 0, lr_precision = Some ''bf16-true'', lr_plugins = None,
                   lr_checkpoint_dir = Path ''checkpoints/base'',
                   lr_checkpoint_path = PathJoin (Path ''checkpoints/base'') ''lit_model.pth'',
                   lr_adapter_path = PathJoin (Path ''out/adapter'') ''lit_model.pth'',
                   lr_max_seq_length = 1024 \<rparr>,
       ReadConfig ''configs/infer_modelpath_datasetpath_setting.yaml'',
       ReadCsv ''data/eval.csv'' ''forbidden_prompt'',
       Generate [81, 49] 1024 1, Generate [81, 50] 1024 1,
       WriteCsv ''inference_result.csv''
         \<lparr> df_columns = [''prompts'', ''results''],
           df_rows = [[''Q1'', ''A''], [''Q2'', ''A'']] \<rparr>], Inr ())
   \<and> (\<exists>df. filter is_write (fst (main stub_env stub_args)) = [WriteCsv ''inference_result.csv'' df]
          \<and> length (df_rows df) = 2)"
proof -
  have h: "main stub_env stub_args =
     ([ReadConfig ''configs/base_model_path.yaml'',
       LoadModel \<lparr> lr_device = 0, lr_precision = Some ''bf16-true'', lr_plugins = None,
                   lr_checkpoint_dir = Path ''checkpoints/base'',
                   lr_checkpoint_path = PathJoin (Path ''checkpoints/base'') ''lit_model.pth'',
                   lr_adapter_path = PathJoin (Path ''out/adapter'') ''lit_model.pth'',
                   lr_max_seq_length = 1024 \<rparr>,
       ReadConfig ''configs/infer_modelpath_datasetpath_setting.yaml'',
       ReadCsv ''data/eval.csv'' ''forbidden_prompt'',
       Generate [81, 49] 1024 1, Generate [81, 50] 1024 1,
       WriteCsv ''inference_result.csv''
         \<lparr> df_columns = [''prompts'', ''results''],
           df_rows = [[''Q1'', ''A''], [''Q2'', ''A'']] \<rparr>], Inr ())"
    by code_simp
  have r: "resolve_output_file stub_env (output_file stub_args) = Some ''inference_result.csv''"
    by code_simp
  have c: "read_csv_column stub_env p c = Inr [''Q1'', ''Q2'']" for p c
    by (simp add: stub_env_def)
  from csv_rows_follow_dataset [OF h] obtain req out path col rows gens df where
    w: "filter is_write (fst (main stub_env stub_args)) = [WriteCsv out df]"
    and o: "resolve_output_file stub_env (output_file stub_args) = Some out"
    and rr: "read_csv_column stub_env path col = Inr rows"
    and l: "length (df_rows df) = length rows"
    unfolding h fst_conv by blast
  from o r have "out = ''inference_result.csv''" by simp
  moreover from rr c have "rows = [''Q1'', ''Q2'']" by simp
  ultimately have "filter is_write (fst (main stub_env stub_args)) = [WriteCsv ''inference_result.csv'' df]
      \<and> length (df_rows df) = 2" using w l by simp
  with h show ?thesis by blast
qed

subsection \<open>Unknown model names\<close>

lemma model_split_label_None_iff:
  "model_split_label name = None \<longleftrightarrow>
     name \<notin> {''Llama-2-7b-chat-hf'', ''Llama-2-13b-chat-hf'', ''falcon-7b'',
              ''mistral-7b-it'', ''beaver''}"
  by (simp add: model_split_label_def)

lemma main_resolved:
  assumes "\<not> falsy (resolve_output_file env (output_file a))"
  shows "main env a =
     and_then (configure env a)
       (\<lambda>(checkpoint_dir, adapter_path, split_label).
     and_then (select_precision env a)
       (\<lambda>pp.
     and_then (load env a checkpoint_dir adapter_path pp)
       (\<lambda>(w, max_returned_tokens).
     and_then (read_dataset env a)
       (\<lambda>rows.
     and_then (generation_loop env a split_label max_returned_tokens rows (w, [], []))
       (\<lambda>(w', predicted_sequences, sources_sequences).
     save_inference_results env sources_sequences predicted_sequences
       (the (resolve_output_file env (output_file a))))))))"
  using assms by (simp add: main_def Let_def)

lemma main_unknown_model:
  assumes "model_split_label (model_name a) = None"
  shows "\<exists>t e. main env a = (t, Inl e) \<and> \<not> list_ex is_load t \<and> \<not> list_ex is_generate t"
proof (cases "falsy (resolve_output_file env (output_file a))")
  case True
  then have "main env a = ([], Inl (SystemExit (- 1)))" by (rule main_unresolved)
  then show ?thesis by simp
next
  case False
  from configure_unknown[OF assms] obtain t e where
    c: "configure env a = (t, Inl e)" and n: "\<not> list_ex is_load t" "\<not> list_ex is_generate t"
    by blast
  have "main env a = (t, Inl e)"
    unfolding main_resolved[OF False] using c by (rule and_then_fail)
  with n show ?thesis by blast
qed

lemma main_unknown_model_KeyError:
  assumes "model_split_label (model_name a) = None"
    and "\<not> falsy (resolve_output_file env (output_file a))"
    and "load_config env ''configs/base_model_path.yaml'' = Inr cfg"
    and "get_model_path env (model_name a) cfg = Inr p"
  shows "main env a = ([ReadConfig ''configs/base_model_path.yaml''], Inl (KeyError (model_name a)))"
proof -
  from configure_known[OF assms(3,4)] assms(1)
  have "configure env a
          = ([ReadConfig ''configs/base_model_path.yaml''], Inl (KeyError (model_name a)))"
    by simp
  then show ?thesis
    unfolding main_resolved[OF assms(2)] by (rule and_then_fail)
qed

text \<open>
  C5, as the script has it: for a model name that is not one of the five keys of the
  split-marker table, the run always ends in an error before the model is loaded and
  before any generation step. The error is the \<^verbatim>\<open>KeyError\<close> of the lookup in the
  split-marker table whenever the run reaches that lookup, that is, when the output path
  was resolved and reading the base model configuration and the model path raised nothing.
\<close>

theorem unknown_model_fails_before_generation:
  assumes "model_name a \<notin> {''Llama-2-7b-chat-hf'', ''Llama-2-13b-chat-hf'', ''falcon-7b'',
                             ''mistral-7b-it'', ''beaver''}"
  shows "(\<exists>t e. main env a = (t, Inl e) \<and> \<not> list_ex is_load t \<and> \<not> list_ex is_generate t)
       \<and> (\<not> falsy (resolve_output_file env (output_file a))
            \<longrightarrow> load_config env ''configs/base_model_path.yaml'' = Inr cfg
            \<longrightarrow> get_model_path env (model_name a) cfg = Inr p
            \<longrightarrow> main env a = ([ReadConfig ''configs/base_model_path.yaml''],
                               Inl (KeyError (model_name a))))"
proof (intro conjI impI)
  from assms have n: "model_split_label (model_name a) = None"
    by (simp add: model_split_label_None_iff)
  show "\<exists>t e. main env a = (t, Inl e) \<and> \<not> list_ex is_load t \<and> \<not> list_ex is_generate t"
    using n by (rule main_unknown_model)
  assume "\<not> falsy (resolve_output_file env (output_file a))"
    and "load_config env ''configs/base_model_path.yaml'' = Inr cfg"
    and "get_model_path env (model_name a) cfg = Inr p"
  with n show "main env a = ([ReadConfig ''configs/base_model_path.yaml''],
                               Inl (KeyError (model_name a)))"
    by (rule main_unknown_model_KeyError)
qed

theorem unknown_model_fails_before_generation_witness:
  "model_name (stub_args\<lparr>model_name := ''gpt2''\<rparr>)
      \<notin> {''Llama-2-7b-chat-hf'', ''Llama-2-13b-chat-hf'', ''falcon-7b'', ''mistral-7b-it'', ''beaver''}
   \<and> \<not> falsy (resolve_output_file stub_env (output_file (stub_args\<lparr>model_name := ''gpt2''\<rparr>)))
   \<and> load_config stub_env ''configs/base_model_path.yaml'' = Inr ()
   \<and> get_model_path stub_env (model_name (stub_args\<lparr>model_name := ''gpt2''\<rparr>)) () = Inr ''checkpoints/base''
   \<and> main stub_env (stub_args\<lparr>model_name := ''gpt2''\<rparr>)
        = ([ReadConfig ''configs/base_model_path.yaml''], Inl (KeyError ''gpt2''))"
proof -
  let ?a = "stub_args\<lparr>model_name := ''gpt2''\<rparr>"
  have h1: "model_name ?a
      \<notin> {''Llama-2-7b-chat-hf'', ''Llama-2-13b-chat-hf'', ''falcon-7b'', ''mistral-7b-it'', ''beaver''}"
    by simp
  have h2: "\<not> falsy (resolve_output_file stub_env (output_file ?a))"
    by (simp add: stub_env_def stub_args_def falsy_def)
  have h3: "load_config stub_env ''configs/base_model_path.yaml'' = Inr ()"
    by (simp add: stub_env_def)
  have h4: "get_model_path stub_env (model_name ?a) () = Inr ''checkpoints/base''"
    by (simp add: stub_env_def)
  have "\<not> falsy (resolve_output_file stub_env (output_file ?a))
          \<longrightarrow> load_config stub_env ''configs/base_model_path.yaml'' = Inr ()
          \<longrightarrow> get_model_path stub_env (model_name ?a) () = Inr ''checkpoints/base''
          \<longrightarrow> main stub_env ?a = ([ReadConfig ''configs/base_model_path.yaml''],
                                     Inl (KeyError (model_name ?a)))"
    using unknown_model_fails_before_generation [OF h1, of stub_env "()" "''checkpoints/base''"]
    by (rule conjunct2)
  with h2 h3 h4
  have m: "main stub_env ?a = ([ReadConfig ''configs/base_model_path.yaml''],
                              Inl (KeyError (model_name ?a)))"
    by (elim impE) assumption+
  have m': "main stub_env ?a = ([ReadConfig ''configs/base_model_path.yaml''], Inl (KeyError ''gpt2''))"
    using m by simp
  show ?thesis
    apply (intro conjI)
        apply (rule h1)
       apply (rule h2)
      apply (rule h3)
     apply (rule h4)
    apply (rule m')
    done
qed

text \<open>
  C5 as stated fails: with an unknown model name and an output path that is not resolved,
  the run ends with \<^verbatim>\<open>exit(-1)\<close> (lines 36 to 38), not with a lookup error.
\<close>

theorem unknown_model_fails_before_generation_counterexample:
  "model_name (stub_args\<lparr>model_name := ''gpt2'', output_file := ''taken.csv''\<rparr>)
      \<notin> {''Llama-2-7b-chat-hf'', ''Llama-2-13b-chat-hf'', ''falcon-7b'', ''mistral-7b-it'', ''beaver''}
   \<and> main stub_env (stub_args\<lparr>model_name := ''gpt2'', output_file := ''taken.csv''\<rparr>)
        = ([], Inl (SystemExit (- 1)))"
  by (simp add: main_def Let_def falsy_def raise_def stub_env_def stub_args_def)

subsection \<open>Quantization and mixed precision\<close>

text \<open>
  C7, as the script has it: in every run that reaches the precision check (the output path
  was resolved, the base model configuration and the model path were read, and the model
  name has a split marker), a \<open>bnb.\<close> quantization mode together with a resolved precision
  that contains \<open>mixed\<close> raises the \<^verbatim>\<open>ValueError\<close> of line 77; the only call made
  before it is the configuration read, so the model has not been constructed.
\<close>

theorem mixed_precision_rejected:
  assumes "\<not> falsy (resolve_output_file env (output_file a))"
    and "load_config env ''configs/base_model_path.yaml'' = Inr cfg"
    and "get_model_path env (model_name a) cfg = Inr p"
    and "model_split_label (model_name a) = Some split_label"
    and "quantize a = Some q" and "startswith q ''bnb.''"
    and "contains ''mixed'' (resolved_precision env a)"
  shows "main env a = ([ReadConfig ''configs/base_model_path.yaml''],
                       Inl (ValueError ''Quantization and mixed precision is not supported.''))
         \<and> \<not> list_ex is_load (fst (main env a))"
proof -
  from configure_known[OF assms(2,3)] assms(4)
  have c: "configure env a = ([ReadConfig ''configs/base_model_path.yaml''],
             Inr (Path p, PathJoin (adapter_dir a) ''lit_model.pth'', split_label))"
    by simp
  have s: "select_precision env a
             = ([], Inl (ValueError ''Quantization and mixed precision is not supported.''))"
    using assms(5,6,7) by (rule select_precision_mixed)
  have "main env a = ([ReadConfig ''configs/base_model_path.yaml''],
                       Inl (ValueError ''Quantization and mixed precision is not supported.''))"
    unfolding main_resolved[OF assms(1)] and_then_ok[OF c]
    by (simp add: and_then_fail[OF s])
  then show ?thesis by simp
qed

theorem mixed_precision_rejected_witness:
  "\<not> falsy (resolve_output_file stub_env
        (output_file (stub_args\<lparr>quantize := Some ''bnb.nf4'', precision := Some ''16-mixed''\<rparr>)))
   \<and> model_split_label (model_name (stub_args\<lparr>quantize := Some ''bnb.nf4'', precision := Some ''16-mixed''\<rparr>))
        = Some ''[/INST]''
   \<and> startswith ''bnb.nf4'' ''bnb.''
   \<and> contains ''mixed'' (resolved_precision stub_env
         (stub_args\<lparr>quantize := Some ''bnb.nf4'', precision := Some ''16-mixed''\<rparr>))
   \<and> main stub_env (stub_args\<lparr>quantize := Some ''bnb.nf4'', precision := Some ''16-mixed''\<rparr>)
        = ([ReadConfig ''configs/base_model_path.yaml''],
           Inl (ValueError ''Quantization and mixed precision is not supported.''))"
proof -
  let ?a = "stub_args\<lparr>quantize := Some ''bnb.nf4'', precision := Some ''16-mixed''\<rparr>"
  have h1: "\<not> falsy (resolve_output_file stub_env (output_file ?a))"
    by (simp add: stub_env_def stub_args_def falsy_def)
  have h2: "load_config stub_env ''configs/base_model_path.yaml'' = Inr ()"
    by (simp add: stub_env_def)
  have h3: "get_model_path stub_env (model_name ?a) () = Inr ''checkpoints/base''"
    by (simp add: stub_env_def)
  have h4: "model_split_label (model_name ?a) = Some ''[/INST]''"
    by (simp add: stub_args_def model_split_label_def)
  have h5: "quantize ?a = Some ''bnb.nf4''" by simp
  have h6: "startswith ''bnb.nf4'' ''bnb.''" by (simp add: startswith_def)
  have h7: "contains ''mixed'' (resolved_precision stub_env ?a)"
    by (simp add: resolved_precision_def startswith_def)
  have m: "main stub_env ?a = ([ReadConfig ''configs/base_model_path.yaml''],
             Inl (ValueError ''Quantization and mixed precision is not supported.''))"
    using mixed_precision_rejected [OF h1 h2 h3 h4 h5 h6 h7] by (rule conjunct1)
  show ?thesis
    apply (intro conjI)
        apply (rule h1)
       apply (rule h4)
      apply (rule h6)
     apply (rule h7)
    apply (rule m)
    done
qed

text \<open>
  C7 as stated fails: with an unknown model name the lookup of line 52 raises
  \<^verbatim>\<open>KeyError\<close> before the precision check of line 76 is reached, also when the
  quantization mode is \<open>bnb.nf4\<close> and the precision is \<open>16-mixed\<close>.
\<close>

theorem mixed_precision_rejected_counterexample:
  "quantize (stub_args\<lparr>model_name := ''gpt2'', quantize := Some ''bnb.nf4'', precision := Some ''16-mixed''\<rparr>)
      = Some ''bnb.nf4''
   \<and> startswith ''bnb.nf4'' ''bnb.''
   \<and> contains ''mixed'' (resolved_precision stub_env
         (stub_args\<lparr>model_name := ''gpt2'', quantize := Some ''bnb.nf4'', precision := Some ''16-mixed''\<rparr>))
   \<and> main stub_env
        (stub_args\<lparr>model_name := ''gpt2'', quantize := Some ''bnb.nf4'', precision := Some ''16-mixed''\<rparr>)
        = ([ReadConfig ''configs/base_model_path.yaml''], Inl (KeyError ''gpt2''))"
  by code_simp

end
